theory Spec2Isabelle
  imports Main
begin

section \<open>Python exceptions and \<open>except\<close> clauses\<close>

text \<open>
  The three tools of \<open>sheets_agent.py\<close> are a \<open>try\<close> body followed by \<open>except\<close> clauses, and
  what they do on a failure is decided by how Python matches a raised exception against the
  clauses, in the order they are written. The classes below are the ones the file names
  (\<open>Exception\<close>, \<open>UnexpectedModelBehavior\<close>, \<open>ModelRetry\<close>) and the ones its calls raise:
  the transport layer's \<open>ssl.SSLError\<close> (an \<open>OSError\<close>), the client library's \<open>HttpError\<close>,
  \<open>EOFError\<close> from \<open>input()\<close>, and \<open>KeyboardInterrupt\<close> and \<open>SystemExit\<close>, which derive from
  \<open>BaseException\<close> only.
\<close>

datatype py_class =
    BaseException | Exception | KeyboardInterrupt | SystemExit
  | OSError | SSLError | HttpError | KeyError | TypeError | EOFError
  | RuntimeError | AgentRunError | UnexpectedModelBehavior | ModelRetry

text \<open>The method resolution order of each class: the class itself, then its bases.\<close>

fun mro :: "py_class \<Rightarrow> py_class list" where
  "mro BaseException = [BaseException]"
| "mro Exception = [Exception, BaseException]"
| "mro KeyboardInterrupt = [KeyboardInterrupt, BaseException]"
| "mro SystemExit = [SystemExit, BaseException]"
| "mro OSError = [OSError, Exception, BaseException]"
| "mro SSLError = [SSLError, OSError, Exception, BaseException]"
| "mro HttpError = [HttpError, Exception, BaseException]"
| "mro KeyError = [KeyError, Exception, BaseException]"
| "mro TypeError = [TypeError, Exception, BaseException]"
| "mro EOFError = [EOFError, Exception, BaseException]"
| "mro RuntimeError = [RuntimeError, Exception, BaseException]"
| "mro AgentRunError = [AgentRunError, RuntimeError, Exception, BaseException]"
| "mro UnexpectedModelBehavior =
     [UnexpectedModelBehavior, AgentRunError, RuntimeError, Exception, BaseException]"
| "mro ModelRetry = [ModelRetry, Exception, BaseException]"

definition issubclass :: "py_class \<Rightarrow> py_class \<Rightarrow> bool" where
  "issubclass c d = (d \<in> set (mro c))"

text \<open>An exception instance: its class and the text \<open>str(e)\<close> gives.\<close>

datatype exc = Exc (cls: py_class) (str_of: string)

text \<open>
  What stands after \<open>except\<close> is an expression, evaluated when the clause is reached. It is a
  class, or a tuple of classes, in a well-formed clause; \<open>ssl.SSL_ERROR_SSL\<close>, which the file
  writes there, is the standard library's integer constant \<open>SSLErrorNumber.SSL_ERROR_SSL = 1\<close>
  and not an exception class (the class is \<open>ssl.SSLError\<close>).
\<close>

datatype py_object = Class py_class | IntConst int

definition SSL_ERROR_SSL :: py_object where
  "SSL_ERROR_SSL = IntConst 1"

fun is_class :: "py_object \<Rightarrow> bool" where
  "is_class (Class c) = True"
| "is_class (IntConst n) = False"

fun catches :: "py_object \<Rightarrow> exc \<Rightarrow> bool" where
  "catches (Class c) e = issubclass (cls e) c"
| "catches (IntConst n) e = False"

text \<open>
  Matching one clause. The interpreter first checks that every object of the clause is an
  exception class and raises \<open>TypeError\<close> otherwise; then the clause matches when the
  exception is an instance of one of the classes.
\<close>

datatype match = Matches | NoMatch | Invalid

definition except_match :: "exc \<Rightarrow> py_object list \<Rightarrow> match" where
  "except_match e objs =
     (if \<not> list_all is_class objs then Invalid
      else if list_ex (\<lambda>obj. catches obj e) objs then Matches
      else NoMatch)"

definition cannot_catch :: exc where
  "cannot_catch =
     Exc TypeError ''catching classes that do not inherit from BaseException is not allowed''"

datatype 'a outcome = Returned 'a | Raised exc

text \<open>
  The clauses of a \<open>try\<close> statement, tried in source order on the exception the body raised:
  the first matching clause runs its body, a clause that cannot be matched raises
  \<open>TypeError\<close>, and an exception that no clause matches propagates.
\<close>

type_synonym 'a except_clause = "py_object list \<times> (exc \<Rightarrow> 'a outcome)"

fun try_except :: "exc \<Rightarrow> 'a except_clause list \<Rightarrow> 'a outcome" where
  "try_except e [] = Raised e"
| "try_except e ((objs, body) # clauses) =
     (case except_match e objs of
        Matches \<Rightarrow> body e
      | NoMatch \<Rightarrow> try_except e clauses
      | Invalid \<Rightarrow> Raised cannot_catch)"

section \<open>The data of the tools\<close>

text \<open>
  The metadata the service returns for a spreadsheet: the key \<open>sheets\<close> may be absent
  (\<open>sheet_metadata.get('sheets', [])\<close>), and each entry carries \<open>properties\<close> with an integer
  \<open>sheetId\<close> and a \<open>title\<close>.
\<close>

record SheetProperties =
  sheetId :: int
  title :: string

record Sheet =
  properties :: SheetProperties

record Spreadsheet =
  sheets :: "Sheet list option"

text \<open>The entries of the \<open>requests\<close> list of a \<open>batchUpdate\<close> body.\<close>

datatype request = addSheet string | deleteSheet int

text \<open>
  The client handle (\<open>Resource\<close>): the two calls the tools make on it, each ending in
  \<open>.execute()\<close>, which returns the service's answer or raises. The remote service is a state
  \<open>'s\<close> that a call may change; \<open>'r\<close> is the confirmation of a batch update.
\<close>

record ('s, 'r) Resource =
  get_execute :: "string \<Rightarrow> 's \<Rightarrow> (exc + Spreadsheet) \<times> 's"
  batchUpdate_execute :: "string \<Rightarrow> request list \<Rightarrow> 's \<Rightarrow> (exc + 'r) \<times> 's"

record ('s, 'r) SheetsDependencies =
  sheets_service :: "('s, 'r) Resource"
  spreadsheet_id :: string

text \<open>
  What a tool returns (its return type is \<open>Any\<close>): the raw confirmation, a string, or the
  list of dictionaries of \<open>list_sheets\<close>, a dictionary being its items in insertion order.
\<close>

datatype pyval = PyInt int | PyStr string

type_synonym py_dict = "(string \<times> pyval) list"

datatype 'r tool_value = Response 'r | Text string | Dicts "py_dict list"

text \<open>
  What a tool does besides returning: the lines it prints, the requests it sends for a
  spreadsheet identifier, and \<open>time.sleep\<close>, in the order they happen. \<open>print\<close> and
  \<open>time.sleep\<close> are taken not to raise.
\<close>

datatype effect =
    Print string
  | Get string
  | BatchUpdate string "request list"
  | Sleep nat

section \<open>The tools\<close>

definition add_sheet ::
  "('s, 'r) SheetsDependencies \<Rightarrow> string \<Rightarrow> 's \<Rightarrow> 'r tool_value outcome \<times> effect list \<times> 's"
where
  \<open>add_sheet deps sheet_name s =
     (let request_body = [addSheet sheet_name];
          trace = [Print (''Calling add_sheet to add sheet "'' @ sheet_name @ ''"''),
                   BatchUpdate (spreadsheet_id deps) request_body];
          (res, s') = batchUpdate_execute (sheets_service deps) (spreadsheet_id deps) request_body s
      in case res of
           Inr response \<Rightarrow> (Returned (Response response), trace @ [Sleep 1], s')
         | Inl e \<Rightarrow>
             (try_except e
                [([Class Exception, Class UnexpectedModelBehavior],
                    \<lambda>e. Returned (Text (''An error occurred: '' @ str_of e))),
                 ([SSL_ERROR_SSL],
                    \<lambda>e. Raised (Exc ModelRetry
                      (''An error occurred: '' @ str_of e @ ''. Please try again.'')))],
              trace, s'))\<close>

text \<open>The scan of \<open>delete_sheet\<close>: the loop leaves at the first entry whose title matches.\<close>

fun find_sheet_id :: "Sheet list \<Rightarrow> string \<Rightarrow> int option" where
  "find_sheet_id [] sheet_name = None"
| "find_sheet_id (sheet # rest) sheet_name =
     (if title (properties sheet) = sheet_name then Some (sheetId (properties sheet))
      else find_sheet_id rest sheet_name)"

definition sheets_or_empty :: "Spreadsheet \<Rightarrow> Sheet list" where
  "sheets_or_empty sheet_metadata =
     (case sheets sheet_metadata of None \<Rightarrow> [] | Some xs \<Rightarrow> xs)"

definition delete_sheet ::
  "('s, 'r) SheetsDependencies \<Rightarrow> string \<Rightarrow> 's \<Rightarrow> 'r tool_value outcome \<times> effect list \<times> 's"
where
  \<open>delete_sheet deps sheet_name s =
     (let clauses =
            [([Class Exception, Class UnexpectedModelBehavior],
                \<lambda>e. Returned (Text (''An error occurred: '' @ str_of e))),
             ([SSL_ERROR_SSL],
                \<lambda>e. Raised (Exc ModelRetry
                  (''An error occurred: '' @ str_of e @ ''. Please try again.'')))];
          trace = [Print (''Calling delete_sheet to delete sheet "'' @ sheet_name @ ''"''),
                   Get (spreadsheet_id deps)];
          (res, s1) = get_execute (sheets_service deps) (spreadsheet_id deps) s
      in case res of
           Inl e \<Rightarrow> (try_except e clauses, trace, s1)
         | Inr sheet_metadata \<Rightarrow>
             (case find_sheet_id (sheets_or_empty sheet_metadata) sheet_name of
                None \<Rightarrow>
                  (Returned (Text (''Sheet '' @ sheet_name @ '' is already deleted or does not exist'')),
                   trace @ [Print (''Sheet '' @ sheet_name @ '' not found'')], s1)
              | Some sheet_id \<Rightarrow>
                  (let request_body = [deleteSheet sheet_id];
                       trace' = trace @ [BatchUpdate (spreadsheet_id deps) request_body];
                       (res', s2) = batchUpdate_execute (sheets_service deps) (spreadsheet_id deps)
                                      request_body s1
                   in case res' of
                        Inr response \<Rightarrow> (Returned (Response response), trace', s2)
                      | Inl e \<Rightarrow> (try_except e clauses, trace', s2))))\<close>

definition list_sheets ::
  "('s, 'r) SheetsDependencies \<Rightarrow> 's \<Rightarrow> 'r tool_value outcome \<times> effect list \<times> 's"
where
  "list_sheets deps s =
     (let trace = [Print ''Calling list_sheets'', Get (spreadsheet_id deps)];
          (res, s1) = get_execute (sheets_service deps) (spreadsheet_id deps) s
      in case res of
           Inl e \<Rightarrow>
             (try_except e
                [([Class Exception, SSL_ERROR_SSL],
                    \<lambda>e. Raised (Exc ModelRetry
                      (''An error occurred: '' @ str_of e @ ''. Please try again.'')))],
              trace, s1)
         | Inr sheet_metadata \<Rightarrow>
             (let sheets = sheets_or_empty sheet_metadata
              in if sheets = [] then (Returned (Dicts []), trace, s1)
                 else (Returned (Dicts (map (\<lambda>sheet.
                          [(''id'', PyInt (sheetId (properties sheet))),
                           (''name'', PyStr (title (properties sheet)))]) sheets)),
                       trace, s1)))"

section \<open>The session\<close>

text \<open>
  Strings are ASCII text. \<open>str.lower\<close> maps the letters \<open>A\<close> to \<open>Z\<close> to \<open>a\<close> to \<open>z\<close> and leaves
  every other character as it is; \<open>str.strip\<close> removes the leading and the trailing
  whitespace, which in ASCII is the characters 9 to 13, 28 to 31 and the space.
\<close>

definition lower_char :: "char \<Rightarrow> char" where
  "lower_char c =
     (if 65 \<le> (of_char c :: nat) \<and> (of_char c :: nat) \<le> 90
      then char_of ((of_char c :: nat) + 32) else c)"

definition lower :: "string \<Rightarrow> string" where
  "lower s = map lower_char s"

definition isspace :: "char \<Rightarrow> bool" where
  "isspace c =
     ((9 \<le> (of_char c :: nat) \<and> (of_char c :: nat) \<le> 13)
      \<or> (28 \<le> (of_char c :: nat) \<and> (of_char c :: nat) \<le> 32))"

definition strip :: "string \<Rightarrow> string" where
  "strip s = rev (dropWhile isspace (rev (dropWhile isspace s)))"

text \<open>
  The result model of the agent and what a run returns: \<open>response.data\<close> and
  \<open>response.all_messages()\<close>, \<open>'m\<close> being the type of a message.
\<close>

record SheetsResult =
  request_status :: bool
  result_details :: string

record 'm RunResult =
  data :: SheetsResult
  all_messages :: "'m list"

text \<open>
  \<open>sheets_agent.run_sync\<close> belongs to the agent framework: it is a parameter here, taking
  the prompt and the message history (\<open>None\<close> when the argument is left out) and returning a
  result or raising. Tools run only inside it. \<open>'w\<close> is the state of everything a run can
  change (the model, the remote spreadsheet).
\<close>

type_synonym ('m, 'w) run_sync =
  "string \<Rightarrow> 'm list option \<Rightarrow> 'w \<Rightarrow> (exc + 'm RunResult) \<times> 'w"

text \<open>
  What the process does, in order: \<open>input('User: ')\<close>, a run of the agent, and the two
  \<open>print\<close> calls (the first prints \<open>response.data\<close>, the later ones its \<open>result_details\<close>).
\<close>

datatype 'm event =
    Input string
  | Run_sync string "'m list option"
  | Print_data string SheetsResult
  | Print_line string

text \<open>
  How the process ends: \<open>sys.exit\<close> with its argument, or an exception nothing handles.
  Standard input is the list of the lines still to be read; \<open>input\<close> raises \<open>EOFError\<close>
  when there is none.
\<close>

datatype ending = SysExit string | Unhandled exc

definition eof :: exc where
  "eof = Exc EOFError ''EOF when reading a line''"

fun loop ::
  "('m, 'w) run_sync \<Rightarrow> 'm RunResult \<Rightarrow> string list \<Rightarrow> 'w \<Rightarrow> 'm event list \<times> ending \<times> 'w"
where
  "loop run response [] w = ([Input ''User: ''], Unhandled eof, w)"
| "loop run response (prompt # stdin) w =
     (if lower prompt = ''exit'' then ([Input ''User: ''], SysExit ''See you next time'', w)
      else
        (case run (strip prompt) (Some (all_messages response)) w of
           (Inl e, w') \<Rightarrow>
             ([Input ''User: '', Run_sync (strip prompt) (Some (all_messages response))],
              Unhandled e, w')
         | (Inr response', w') \<Rightarrow>
             (case loop run response' stdin w' of
                (events, fin, w'') \<Rightarrow>
                  (Input ''User: ''
                     # Run_sync (strip prompt) (Some (all_messages response))
                     # Print_line (''Sheets agent: '' @ result_details (data response'))
                     # events,
                   fin, w''))))"

definition main ::
  "('m, 'w) run_sync \<Rightarrow> string list \<Rightarrow> 'w \<Rightarrow> 'm event list \<times> ending \<times> 'w"
where
  "main run stdin w =
     (case stdin of
        [] \<Rightarrow> ([Input ''User: ''], Unhandled eof, w)
      | prompt # stdin' \<Rightarrow>
          (if lower prompt = ''exit'' then ([Input ''User: ''], SysExit ''See you next time'', w)
           else
             (case run (strip prompt) None w of
                (Inl e, w') \<Rightarrow>
                  ([Input ''User: '', Run_sync (strip prompt) None], Unhandled e, w')
              | (Inr response, w') \<Rightarrow>
                  (case loop run response stdin' w' of
                     (events, fin, w'') \<Rightarrow>
                       (Input ''User: ''
                          # Run_sync (strip prompt) None
                          # Print_data ''Sheet agent: '' (data response)
                          # events,
                        fin, w'')))))"

section \<open>Services and runs used as concrete inputs\<close>

text \<open>
  A service that keeps the list of its sheets: it returns them all as metadata, removes the
  sheets of an identifier on \<open>deleteSheet\<close>, appends a sheet with an unused identifier on
  \<open>addSheet\<close>, and confirms a batch update with the requests it applied.
\<close>

fun apply_request :: "request \<Rightarrow> Sheet list \<Rightarrow> Sheet list" where
  "apply_request (deleteSheet i) st = filter (\<lambda>sheet. sheetId (properties sheet) \<noteq> i) st"
| "apply_request (addSheet t) st =
     st @ [\<lparr>properties = \<lparr>sheetId = fold (\<lambda>sheet m. max (sheetId (properties sheet) + 1) m) st 0,
                            title = t\<rparr>\<rparr>]"

definition list_service :: "(Sheet list, request list) Resource" where
  "list_service =
     \<lparr>get_execute = (\<lambda>sid st. (Inr \<lparr>sheets = Some st\<rparr>, st)),
      batchUpdate_execute = (\<lambda>sid reqs st. (Inr reqs, fold apply_request reqs st))\<rparr>"

text \<open>A service whose every call raises the given exception.\<close>

definition failing_service :: "exc \<Rightarrow> (unit, unit) Resource" where
  "failing_service e =
     \<lparr>get_execute = (\<lambda>sid u. (Inl e, u)),
      batchUpdate_execute = (\<lambda>sid reqs u. (Inl e, u))\<rparr>"

text \<open>A service that can be read but rejects every batch update with the given exception.\<close>

definition read_only_service :: "exc \<Rightarrow> (Sheet list, unit) Resource" where
  "read_only_service e =
     \<lparr>get_execute = (\<lambda>sid st. (Inr \<lparr>sheets = Some st\<rparr>, st)),
      batchUpdate_execute = (\<lambda>sid reqs st. (Inl e, st))\<rparr>"

definition mk_sheet :: "int \<Rightarrow> string \<Rightarrow> Sheet" where
  "mk_sheet i t = \<lparr>properties = \<lparr>sheetId = i, title = t\<rparr>\<rparr>"

text \<open>A run of the agent that answers every prompt with the prompt itself.\<close>

definition echo_run :: "(string, unit) run_sync" where
  "echo_run prompt history u =
     (Inr \<lparr>data = \<lparr>request_status = True, result_details = prompt\<rparr>,
           all_messages = (case history of None \<Rightarrow> [] | Some ms \<Rightarrow> ms) @ [prompt]\<rparr>, u)"

section \<open>What the \<open>except\<close> clauses do\<close>

text \<open>
  Every class the first clause of \<open>add_sheet\<close> and \<open>delete_sheet\<close> names derives from
  \<open>Exception\<close>, so the clause matches exactly the instances of \<open>Exception\<close>; for any
  other exception the second clause is reached, and matching against the integer
  \<open>ssl.SSL_ERROR_SSL\<close> raises \<open>TypeError\<close>. The single clause of \<open>list_sheets\<close> holds
  that integer too, so matching any exception against it raises \<open>TypeError\<close>.
\<close>

lemma issubclass_UnexpectedModelBehavior:
  "issubclass c UnexpectedModelBehavior \<Longrightarrow> issubclass c Exception"
  by (cases c) (simp_all add: issubclass_def)

lemma string_fallback_clauses:
  "try_except e
     [([Class Exception, Class UnexpectedModelBehavior],
         \<lambda>e. Returned (Text (''An error occurred: '' @ str_of e))),
      ([SSL_ERROR_SSL],
         \<lambda>e. Raised (Exc ModelRetry (''An error occurred: '' @ str_of e @ ''. Please try again.'')))]
   = (if issubclass (cls e) Exception then Returned (Text (''An error occurred: '' @ str_of e))
      else Raised cannot_catch)"
  using issubclass_UnexpectedModelBehavior [of "cls e"]
  by (auto simp add: except_match_def SSL_ERROR_SSL_def)

lemma retry_clause:
  "try_except e
     [([Class Exception, SSL_ERROR_SSL],
        \<lambda>e. Raised (Exc ModelRetry (''An error occurred: '' @ str_of e @ ''. Please try again.'')))]
   = Raised cannot_catch"
  by (simp add: except_match_def SSL_ERROR_SSL_def)

section \<open>The scan and the three tools, case by case\<close>

lemma find_sheet_id_None:
  "(find_sheet_id xs name = None) = (\<forall>sheet \<in> set xs. title (properties sheet) \<noteq> name)"
  by (induction xs) auto

lemma find_sheet_id_first:
  "\<forall>x \<in> set pre. title (properties x) \<noteq> name \<Longrightarrow> title (properties sheet) = name \<Longrightarrow>
   find_sheet_id (pre @ sheet # post) name = Some (sheetId (properties sheet))"
  by (induction pre) auto

lemma add_sheet_Inr:
  assumes "batchUpdate_execute (sheets_service deps) (spreadsheet_id deps) [addSheet sheet_name] s
           = (Inr response, s')"
  shows \<open>add_sheet deps sheet_name s =
          (Returned (Response response),
           [Print (''Calling add_sheet to add sheet "'' @ sheet_name @ ''"''),
            BatchUpdate (spreadsheet_id deps) [addSheet sheet_name], Sleep 1], s')\<close>
  using assms by (simp add: add_sheet_def)

lemma add_sheet_Inl:
  assumes "batchUpdate_execute (sheets_service deps) (spreadsheet_id deps) [addSheet sheet_name] s
           = (Inl e, s')"
  shows \<open>add_sheet deps sheet_name s =
          (if issubclass (cls e) Exception then Returned (Text (''An error occurred: '' @ str_of e))
           else Raised cannot_catch,
           [Print (''Calling add_sheet to add sheet "'' @ sheet_name @ ''"''),
            BatchUpdate (spreadsheet_id deps) [addSheet sheet_name]], s')\<close>
  using assms unfolding add_sheet_def Let_def string_fallback_clauses by simp

lemma delete_sheet_get_Inl:
  assumes "get_execute (sheets_service deps) (spreadsheet_id deps) s = (Inl e, s1)"
  shows \<open>delete_sheet deps sheet_name s =
          (if issubclass (cls e) Exception then Returned (Text (''An error occurred: '' @ str_of e))
           else Raised cannot_catch,
           [Print (''Calling delete_sheet to delete sheet "'' @ sheet_name @ ''"''),
            Get (spreadsheet_id deps)], s1)\<close>
  using assms unfolding delete_sheet_def Let_def string_fallback_clauses by simp

lemma delete_sheet_None:
  assumes "get_execute (sheets_service deps) (spreadsheet_id deps) s = (Inr sheet_metadata, s1)"
    and "find_sheet_id (sheets_or_empty sheet_metadata) sheet_name = None"
  shows \<open>delete_sheet deps sheet_name s =
          (Returned (Text (''Sheet '' @ sheet_name @ '' is already deleted or does not exist'')),
           [Print (''Calling delete_sheet to delete sheet "'' @ sheet_name @ ''"''),
            Get (spreadsheet_id deps),
            Print (''Sheet '' @ sheet_name @ '' not found'')], s1)\<close>
  using assms by (simp add: delete_sheet_def)

lemma delete_sheet_Some:
  assumes "get_execute (sheets_service deps) (spreadsheet_id deps) s = (Inr sheet_metadata, s1)"
    and "find_sheet_id (sheets_or_empty sheet_metadata) sheet_name = Some sheet_id"
    and "batchUpdate_execute (sheets_service deps) (spreadsheet_id deps) [deleteSheet sheet_id] s1
         = (res, s2)"
  shows \<open>delete_sheet deps sheet_name s =
          (case res of
             Inr response \<Rightarrow> Returned (Response response)
           | Inl e \<Rightarrow>
               if issubclass (cls e) Exception
               then Returned (Text (''An error occurred: '' @ str_of e))
               else Raised cannot_catch,
           [Print (''Calling delete_sheet to delete sheet "'' @ sheet_name @ ''"''),
            Get (spreadsheet_id deps),
            BatchUpdate (spreadsheet_id deps) [deleteSheet sheet_id]], s2)\<close>
  using assms unfolding delete_sheet_def Let_def string_fallback_clauses
  by (simp split: sum.splits)

lemma add_sheet_Raised:
  "fst (add_sheet deps sheet_name s) = Raised x \<Longrightarrow> x = cannot_catch"
proof -
  assume r: "fst (add_sheet deps sheet_name s) = Raised x"
  obtain res s' where
    b: "batchUpdate_execute (sheets_service deps) (spreadsheet_id deps) [addSheet sheet_name] s
        = (res, s')"
    by (cases "batchUpdate_execute (sheets_service deps) (spreadsheet_id deps) [addSheet sheet_name] s")
  show ?thesis
  proof (cases res)
    case (Inl e)
    with b r show ?thesis by (simp add: add_sheet_Inl split: if_splits)
  next
    case (Inr response)
    with b r show ?thesis by (simp add: add_sheet_Inr)
  qed
qed

lemma delete_sheet_Raised:
  "fst (delete_sheet deps sheet_name s) = Raised x \<Longrightarrow> x = cannot_catch"
proof -
  assume r: "fst (delete_sheet deps sheet_name s) = Raised x"
  obtain res s1 where
    g: "get_execute (sheets_service deps) (spreadsheet_id deps) s = (res, s1)"
    by (cases "get_execute (sheets_service deps) (spreadsheet_id deps) s")
  show ?thesis
  proof (cases res)
    case (Inl e)
    with g r show ?thesis by (simp add: delete_sheet_get_Inl split: if_splits)
  next
    case (Inr sheet_metadata)
    note md = this
    show ?thesis
    proof (cases "find_sheet_id (sheets_or_empty sheet_metadata) sheet_name")
      case None
      with g md r show ?thesis by (simp add: delete_sheet_None)
    next
      case (Some sheet_id)
      obtain res' s2 where
        b: "batchUpdate_execute (sheets_service deps) (spreadsheet_id deps) [deleteSheet sheet_id] s1
            = (res', s2)"
        by (cases "batchUpdate_execute (sheets_service deps) (spreadsheet_id deps)
                     [deleteSheet sheet_id] s1")
      from g md Some b r show ?thesis
        by (simp add: delete_sheet_Some split: sum.splits if_splits)
    qed
  qed
qed

lemma list_sheets_never_text:
  "fst (list_sheets deps s) \<noteq> Returned (Text t)"
  unfolding list_sheets_def Let_def retry_clause
  by (simp split: prod.splits sum.splits)


text \<open>
  Two deletions in a row on the service that keeps its sheets in a list: when exactly one
  sheet has the title, the first call removes it and the second finds none.
\<close>

lemma list_service_delete_twice:
  assumes "length (filter (\<lambda>sheet. title (properties sheet) = sheet_name) st) = 1"
  shows "fst (delete_sheet \<lparr>sheets_service = list_service, spreadsheet_id = sid\<rparr> sheet_name
                (snd (snd (delete_sheet \<lparr>sheets_service = list_service, spreadsheet_id = sid\<rparr>
                             sheet_name st))))
         = Returned (Text (''Sheet '' @ sheet_name @ '' is already deleted or does not exist''))"
proof -
  let ?deps = "\<lparr>sheets_service = list_service, spreadsheet_id = sid\<rparr>"
  let ?P = "\<lambda>sheet. title (properties sheet) = sheet_name"
  from assms obtain sheet where only: "filter ?P st = [sheet]"
    by (cases "filter ?P st") auto
  then have "sheet \<in> set (filter ?P st)" by simp
  then have "\<exists>x \<in> set st. ?P x" by auto
  then obtain pre x post where
    split: "st = pre @ x # post" and hit: "?P x" and miss: "\<forall>y \<in> set pre. \<not> ?P y"
    by (auto dest!: split_list_first_prop)
  from only split hit miss have x: "x = sheet" and rest: "\<forall>y \<in> set post. \<not> ?P y"
    by (auto simp add: filter_empty_conv)
  have g: "get_execute (sheets_service ?deps) (spreadsheet_id ?deps) st
           = (Inr \<lparr>sheets = Some st\<rparr>, st)"
    by (simp add: list_service_def)
  have found: "find_sheet_id (sheets_or_empty \<lparr>sheets = Some st\<rparr>) sheet_name
               = Some (sheetId (properties x))"
    using find_sheet_id_first [of pre sheet_name x post] miss hit
    by (simp add: sheets_or_empty_def split)
  let ?st' = "filter (\<lambda>sheet. sheetId (properties sheet) \<noteq> sheetId (properties x)) st"
  have b: "batchUpdate_execute (sheets_service ?deps) (spreadsheet_id ?deps)
             [deleteSheet (sheetId (properties x))] st
           = (Inr [deleteSheet (sheetId (properties x))], ?st')"
    by (simp add: list_service_def)
  have after: "snd (snd (delete_sheet ?deps sheet_name st)) = ?st'"
    by (simp add: delete_sheet_Some [OF g found b])
  have g': "get_execute (sheets_service ?deps) (spreadsheet_id ?deps) ?st'
            = (Inr \<lparr>sheets = Some ?st'\<rparr>, ?st')"
    by (simp add: list_service_def)
  have gone: "find_sheet_id (sheets_or_empty \<lparr>sheets = Some ?st'\<rparr>) sheet_name = None"
    using miss rest by (auto simp add: find_sheet_id_None sheets_or_empty_def split)
  show ?thesis
    unfolding after by (simp add: delete_sheet_None [OF g' gone])
qed

section \<open>The claims\<close>

subsection \<open>Failures of \<open>add_sheet\<close> and \<open>delete_sheet\<close>\<close>

text \<open>
  Claim C1 says that a transient transport-layer failure during \<open>add_sheet\<close> or
  \<open>delete_sheet\<close> is signalled to the agent runtime as a retryable condition. The code does
  not do so: when the request raises \<open>ssl.SSLError\<close>, the clause for \<open>Exception\<close>, written
  first, catches it, and both tools return the string \<open>An error occurred: ...\<close> at once,
  having sent one request and raised nothing. The clause that raises \<open>ModelRetry\<close> is written
  after it and is never reached.
\<close>

theorem transport_failure_is_not_retried:
  \<open>add_sheet \<lparr>sheets_service = failing_service (Exc SSLError msg), spreadsheet_id = sid\<rparr>
       sheet_name ()
     = (Returned (Text (''An error occurred: '' @ msg)),
        [Print (''Calling add_sheet to add sheet "'' @ sheet_name @ ''"''),
         BatchUpdate sid [addSheet sheet_name]], ())
   \<and> delete_sheet \<lparr>sheets_service = failing_service (Exc SSLError msg), spreadsheet_id = sid\<rparr>
       sheet_name ()
     = (Returned (Text (''An error occurred: '' @ msg)),
        [Print (''Calling delete_sheet to delete sheet "'' @ sheet_name @ ''"''),
         Get sid], ())\<close>
proof -
  have sub: "issubclass (cls (Exc SSLError msg)) Exception"
    by (simp add: issubclass_def)
  have a: "batchUpdate_execute (sheets_service \<lparr>sheets_service = failing_service (Exc SSLError msg), spreadsheet_id = sid\<rparr>)
             (spreadsheet_id \<lparr>sheets_service = failing_service (Exc SSLError msg), spreadsheet_id = sid\<rparr>)
             [addSheet sheet_name] () = (Inl (Exc SSLError msg), ())"
    by (simp add: failing_service_def)
  have d: "get_execute (sheets_service \<lparr>sheets_service = failing_service (Exc SSLError msg), spreadsheet_id = sid\<rparr>)
             (spreadsheet_id \<lparr>sheets_service = failing_service (Exc SSLError msg), spreadsheet_id = sid\<rparr>)
             () = (Inl (Exc SSLError msg), ())"
    by (simp add: failing_service_def)
  show ?thesis
    using sub by (simp add: add_sheet_Inl [OF a] delete_sheet_get_Inl [OF d])
qed

text \<open>
  Claim C9, as stated, says that for every exception raised inside the \<open>try\<close> body the
  generic handler returns the string, so that the two tools never raise. An exception that
  does not derive from \<open>Exception\<close> is not caught by that handler: when the request is
  interrupted by \<open>KeyboardInterrupt\<close>, \<open>add_sheet\<close> raises.
\<close>

theorem interrupt_escapes_generic_handler:
  \<open>add_sheet \<lparr>sheets_service = failing_service (Exc KeyboardInterrupt ''''), spreadsheet_id = ''S''\<rparr>
      ''X'' ()
   = (Raised (Exc TypeError
        ''catching classes that do not inherit from BaseException is not allowed''),
      [Print ''Calling add_sheet to add sheet "X"'', BatchUpdate ''S'' [addSheet ''X'']], ())\<close>
proof -
  have b: "batchUpdate_execute
             (sheets_service \<lparr>sheets_service = failing_service (Exc KeyboardInterrupt ''''),
                              spreadsheet_id = ''S''\<rparr>)
             (spreadsheet_id \<lparr>sheets_service = failing_service (Exc KeyboardInterrupt ''''),
                              spreadsheet_id = ''S''\<rparr>)
             [addSheet ''X''] ()
           = (Inl (Exc KeyboardInterrupt ''''), ())"
    by (simp add: failing_service_def)
  show ?thesis
    by (simp add: add_sheet_Inl [OF b] issubclass_def cannot_catch_def)
qed

text \<open>
  Claim C9, amended: for every exception that derives from \<open>Exception\<close> (an SSL
  transport error is one) raised by a request of \<open>add_sheet\<close> or \<open>delete_sheet\<close>, the tool
  returns the string \<open>An error occurred: <message>\<close>; and the branch that raises the retry
  signal is unreachable: whatever the service does, neither tool raises \<open>ModelRetry\<close>.
\<close>

theorem generic_handler_returns_string:
  assumes "issubclass (cls e) Exception"
  shows "(batchUpdate_execute (sheets_service deps) (spreadsheet_id deps) [addSheet sheet_name] s
            = (Inl e, s')
          \<longrightarrow> fst (add_sheet deps sheet_name s)
                = Returned (Text (''An error occurred: '' @ str_of e)))
       \<and> (get_execute (sheets_service deps) (spreadsheet_id deps) s = (Inl e, s')
          \<longrightarrow> fst (delete_sheet deps sheet_name s)
                = Returned (Text (''An error occurred: '' @ str_of e)))
       \<and> (get_execute (sheets_service deps) (spreadsheet_id deps) s = (Inr sheet_metadata, s_get)
            \<and> find_sheet_id (sheets_or_empty sheet_metadata) sheet_name = Some sheet_id
            \<and> batchUpdate_execute (sheets_service deps) (spreadsheet_id deps)
                 [deleteSheet sheet_id] s_get = (Inl e, s')
          \<longrightarrow> fst (delete_sheet deps sheet_name s)
                = Returned (Text (''An error occurred: '' @ str_of e)))
       \<and> (\<forall>message. fst (add_sheet deps sheet_name s) \<noteq> Raised (Exc ModelRetry message))
       \<and> (\<forall>message. fst (delete_sheet deps sheet_name s) \<noteq> Raised (Exc ModelRetry message))"
proof (intro conjI impI allI)
  assume "batchUpdate_execute (sheets_service deps) (spreadsheet_id deps) [addSheet sheet_name] s
            = (Inl e, s')"
  with assms show "fst (add_sheet deps sheet_name s)
                = Returned (Text (''An error occurred: '' @ str_of e))"
    by (simp add: add_sheet_Inl)
next
  assume "get_execute (sheets_service deps) (spreadsheet_id deps) s = (Inl e, s')"
  with assms show "fst (delete_sheet deps sheet_name s)
                = Returned (Text (''An error occurred: '' @ str_of e))"
    by (simp add: delete_sheet_get_Inl)
next
  assume "get_execute (sheets_service deps) (spreadsheet_id deps) s = (Inr sheet_metadata, s_get)
            \<and> find_sheet_id (sheets_or_empty sheet_metadata) sheet_name = Some sheet_id
            \<and> batchUpdate_execute (sheets_service deps) (spreadsheet_id deps)
                 [deleteSheet sheet_id] s_get = (Inl e, s')"
  with assms show "fst (delete_sheet deps sheet_name s)
                = Returned (Text (''An error occurred: '' @ str_of e))"
    by (simp add: delete_sheet_Some)
next
  fix message
  show "fst (add_sheet deps sheet_name s) \<noteq> Raised (Exc ModelRetry message)"
    using add_sheet_Raised [of deps sheet_name s "Exc ModelRetry message"]
    by (auto simp add: cannot_catch_def)
next
  fix message
  show "fst (delete_sheet deps sheet_name s) \<noteq> Raised (Exc ModelRetry message)"
    using delete_sheet_Raised [of deps sheet_name s "Exc ModelRetry message"]
    by (auto simp add: cannot_catch_def)
qed

theorem generic_handler_returns_string_witness:
  "fst (add_sheet \<lparr>sheets_service = failing_service (Exc SSLError ''boom''), spreadsheet_id = ''S''\<rparr>
          ''X'' ())
     = Returned (Text ''An error occurred: boom'')
   \<and> fst (delete_sheet \<lparr>sheets_service = failing_service (Exc SSLError ''boom''),
                          spreadsheet_id = ''S''\<rparr> ''X'' ())
     = Returned (Text ''An error occurred: boom'')
   \<and> fst (delete_sheet \<lparr>sheets_service = read_only_service (Exc SSLError ''boom''),
                          spreadsheet_id = ''S''\<rparr> ''X'' [mk_sheet 5 ''X''])
     = Returned (Text ''An error occurred: boom'')"
proof -
  have sub: "issubclass (cls (Exc SSLError ''boom'')) Exception"
    by (simp add: issubclass_def)
  have b: "batchUpdate_execute
             (sheets_service \<lparr>sheets_service = failing_service (Exc SSLError ''boom''),
                              spreadsheet_id = ''S''\<rparr>)
             (spreadsheet_id \<lparr>sheets_service = failing_service (Exc SSLError ''boom''),
                              spreadsheet_id = ''S''\<rparr>)
             [addSheet ''X''] ()
           = (Inl (Exc SSLError ''boom''), ())"
    by (simp add: failing_service_def)
  have g: "get_execute
             (sheets_service \<lparr>sheets_service = failing_service (Exc SSLError ''boom''),
                              spreadsheet_id = ''S''\<rparr>)
             (spreadsheet_id \<lparr>sheets_service = failing_service (Exc SSLError ''boom''),
                              spreadsheet_id = ''S''\<rparr>) ()
           = (Inl (Exc SSLError ''boom''), ())"
    by (simp add: failing_service_def)
  have r: "get_execute
             (sheets_service \<lparr>sheets_service = read_only_service (Exc SSLError ''boom''),
                              spreadsheet_id = ''S''\<rparr>)
             (spreadsheet_id \<lparr>sheets_service = read_only_service (Exc SSLError ''boom''),
                              spreadsheet_id = ''S''\<rparr>) [mk_sheet 5 ''X'']
           = (Inr \<lparr>sheets = Some [mk_sheet 5 ''X'']\<rparr>, [mk_sheet 5 ''X''])
         \<and> find_sheet_id (sheets_or_empty \<lparr>sheets = Some [mk_sheet 5 ''X'']\<rparr>) ''X'' = Some 5
         \<and> batchUpdate_execute
             (sheets_service \<lparr>sheets_service = read_only_service (Exc SSLError ''boom''),
                              spreadsheet_id = ''S''\<rparr>)
             (spreadsheet_id \<lparr>sheets_service = read_only_service (Exc SSLError ''boom''),
                              spreadsheet_id = ''S''\<rparr>) [deleteSheet 5] [mk_sheet 5 ''X'']
           = (Inl (Exc SSLError ''boom''), [mk_sheet 5 ''X''])"
    by (simp add: read_only_service_def sheets_or_empty_def mk_sheet_def)
  note at_failing =
    generic_handler_returns_string [OF sub,
      where deps = "\<lparr>sheets_service = failing_service (Exc SSLError ''boom''),
                     spreadsheet_id = ''S''\<rparr>"
        and sheet_name = "''X''" and s = "()" and s' = "()"]
  note at_read_only =
    generic_handler_returns_string [OF sub,
      where deps = "\<lparr>sheets_service = read_only_service (Exc SSLError ''boom''),
                     spreadsheet_id = ''S''\<rparr>"
        and sheet_name = "''X''" and s = "[mk_sheet 5 ''X'']" and s' = "[mk_sheet 5 ''X'']"
        and sheet_metadata = "\<lparr>sheets = Some [mk_sheet 5 ''X'']\<rparr>"
        and s_get = "[mk_sheet 5 ''X'']" and sheet_id = 5]
  from at_failing b have one: "fst (add_sheet \<lparr>sheets_service = failing_service (Exc SSLError ''boom''),
      spreadsheet_id = ''S''\<rparr> ''X'' ()) = Returned (Text ''An error occurred: boom'')"
    by simp
  from at_failing g have two: "fst (delete_sheet \<lparr>sheets_service = failing_service (Exc SSLError ''boom''),
      spreadsheet_id = ''S''\<rparr> ''X'' ()) = Returned (Text ''An error occurred: boom'')"
    by simp
  from at_read_only r have three: "fst (delete_sheet \<lparr>sheets_service = read_only_service (Exc SSLError ''boom''),
      spreadsheet_id = ''S''\<rparr> ''X'' [mk_sheet 5 ''X'']) = Returned (Text ''An error occurred: boom'')"
    by simp
  from one two three show ?thesis by simp
qed

subsection \<open>\<open>delete_sheet\<close>\<close>

text \<open>
  Claim C2: when the fetched metadata holds no sheet of the given title, \<open>delete_sheet\<close>
  returns the string \<open>Sheet <name> is already deleted or does not exist\<close> as its result
  (it raises nothing), and the only request it has sent is the metadata fetch: it issues no
  \<open>deleteSheet\<close> request, and the service is left in the state the fetch left it in. In
  particular this is the outcome of the second of two deletions in a row, the first having
  removed the sheet of that name (\<open>list_service_delete_twice\<close> for the list-keeping
  service).
\<close>

theorem delete_sheet_not_found:
  assumes "get_execute (sheets_service deps) (spreadsheet_id deps) s = (Inr sheet_metadata, s1)"
    and "\<forall>sheet \<in> set (sheets_or_empty sheet_metadata). title (properties sheet) \<noteq> sheet_name"
  shows \<open>delete_sheet deps sheet_name s =
          (Returned (Text (''Sheet '' @ sheet_name @ '' is already deleted or does not exist'')),
           [Print (''Calling delete_sheet to delete sheet "'' @ sheet_name @ ''"''),
            Get (spreadsheet_id deps),
            Print (''Sheet '' @ sheet_name @ '' not found'')], s1)\<close>
  using assms(2) by (intro delete_sheet_None [OF assms(1)]) (simp add: find_sheet_id_None)

theorem delete_sheet_not_found_witness:
  \<open>snd (snd (delete_sheet \<lparr>sheets_service = list_service, spreadsheet_id = ''S''\<rparr> ''X''
                [mk_sheet 0 ''A'', mk_sheet 5 ''X''])) = [mk_sheet 0 ''A'']
   \<and> delete_sheet \<lparr>sheets_service = list_service, spreadsheet_id = ''S''\<rparr> ''X'' [mk_sheet 0 ''A'']
     = (Returned (Text ''Sheet X is already deleted or does not exist''),
        [Print ''Calling delete_sheet to delete sheet "X"'', Get ''S'', Print ''Sheet X not found''],
        [mk_sheet 0 ''A''])\<close>
proof -
  have first: "snd (snd (delete_sheet \<lparr>sheets_service = list_service, spreadsheet_id = ''S''\<rparr> ''X''
                [mk_sheet 0 ''A'', mk_sheet 5 ''X''])) = [mk_sheet 0 ''A'']"
    by (simp add: delete_sheet_def Let_def list_service_def sheets_or_empty_def mk_sheet_def)
  have g: "get_execute (sheets_service \<lparr>sheets_service = list_service, spreadsheet_id = ''S''\<rparr>)
             (spreadsheet_id \<lparr>sheets_service = list_service, spreadsheet_id = ''S''\<rparr>)
             [mk_sheet 0 ''A''] = (Inr \<lparr>sheets = Some [mk_sheet 0 ''A'']\<rparr>, [mk_sheet 0 ''A''])"
    by (simp add: list_service_def)
  have n: "\<forall>sheet \<in> set (sheets_or_empty \<lparr>sheets = Some [mk_sheet 0 ''A'']\<rparr>).
             title (properties sheet) \<noteq> ''X''"
    by (simp add: sheets_or_empty_def mk_sheet_def)
  show ?thesis
    using first delete_sheet_not_found [OF g n] by simp
qed

text \<open>
  Claim C3: when the fetched sheet list holds at least one entry of the given title, the list
  splits at the first such entry (no entry before it has the title, and later entries of the
  same title play no part), \<open>delete_sheet\<close> sends exactly one batch update, which deletes by
  the identifier of that entry, and it returns the confirmation of the service.
\<close>

theorem delete_sheet_first_match:
  assumes "get_execute (sheets_service deps) (spreadsheet_id deps) s = (Inr sheet_metadata, s1)"
    and "\<exists>sheet \<in> set (sheets_or_empty sheet_metadata). title (properties sheet) = sheet_name"
  shows \<open>\<exists>pre sheet post res s2.
           sheets_or_empty sheet_metadata = pre @ sheet # post
         \<and> (\<forall>x \<in> set pre. title (properties x) \<noteq> sheet_name)
         \<and> title (properties sheet) = sheet_name
         \<and> batchUpdate_execute (sheets_service deps) (spreadsheet_id deps)
              [deleteSheet (sheetId (properties sheet))] s1 = (res, s2)
         \<and> snd (delete_sheet deps sheet_name s) =
             ([Print (''Calling delete_sheet to delete sheet "'' @ sheet_name @ ''"''),
               Get (spreadsheet_id deps),
               BatchUpdate (spreadsheet_id deps) [deleteSheet (sheetId (properties sheet))]], s2)
         \<and> (\<forall>response. res = Inr response \<longrightarrow>
               fst (delete_sheet deps sheet_name s) = Returned (Response response))\<close>
proof -
  from assms(2) obtain pre sheet post where
    split: "sheets_or_empty sheet_metadata = pre @ sheet # post"
    and hit: "title (properties sheet) = sheet_name"
    and miss: "\<forall>x \<in> set pre. title (properties x) \<noteq> sheet_name"
    by (auto dest!: split_list_first_prop)
  have found: "find_sheet_id (sheets_or_empty sheet_metadata) sheet_name
               = Some (sheetId (properties sheet))"
    unfolding split by (rule find_sheet_id_first [OF miss hit])
  obtain res s2 where
    b: "batchUpdate_execute (sheets_service deps) (spreadsheet_id deps)
          [deleteSheet (sheetId (properties sheet))] s1 = (res, s2)"
    by (cases "batchUpdate_execute (sheets_service deps) (spreadsheet_id deps)
                 [deleteSheet (sheetId (properties sheet))] s1")
  have run: "snd (delete_sheet deps sheet_name s) =
             ([Print (''Calling delete_sheet to delete sheet '' @ [CHR 0x22] @ sheet_name @ [CHR 0x22]),
               Get (spreadsheet_id deps),
               BatchUpdate (spreadsheet_id deps) [deleteSheet (sheetId (properties sheet))]], s2)"
    by (simp add: delete_sheet_Some [OF assms(1) found b])
  have ok: "\<forall>response. res = Inr response \<longrightarrow>
               fst (delete_sheet deps sheet_name s) = Returned (Response response)"
    by (simp add: delete_sheet_Some [OF assms(1) found b])
  from split miss hit b run ok show ?thesis
    by (intro exI [of _ pre] exI [of _ sheet] exI [of _ post] exI [of _ res] exI [of _ s2]) simp
qed

theorem delete_sheet_first_match_witness:
  \<open>delete_sheet \<lparr>sheets_service = list_service, spreadsheet_id = ''S''\<rparr> ''X''
      [mk_sheet 0 ''A'', mk_sheet 5 ''X'', mk_sheet 9 ''X'']
   = (Returned (Response [deleteSheet 5]),
      [Print ''Calling delete_sheet to delete sheet "X"'', Get ''S'',
       BatchUpdate ''S'' [deleteSheet 5]],
      [mk_sheet 0 ''A'', mk_sheet 9 ''X''])\<close>
proof -
  have g: "get_execute (sheets_service \<lparr>sheets_service = list_service, spreadsheet_id = ''S''\<rparr>)
             (spreadsheet_id \<lparr>sheets_service = list_service, spreadsheet_id = ''S''\<rparr>)
             [mk_sheet 0 ''A'', mk_sheet 5 ''X'', mk_sheet 9 ''X'']
           = (Inr \<lparr>sheets = Some [mk_sheet 0 ''A'', mk_sheet 5 ''X'', mk_sheet 9 ''X'']\<rparr>,
              [mk_sheet 0 ''A'', mk_sheet 5 ''X'', mk_sheet 9 ''X''])"
    by (simp add: list_service_def)
  have m: "\<exists>sheet \<in> set (sheets_or_empty
              \<lparr>sheets = Some [mk_sheet 0 ''A'', mk_sheet 5 ''X'', mk_sheet 9 ''X'']\<rparr>).
             title (properties sheet) = ''X''"
    by (simp add: sheets_or_empty_def mk_sheet_def)
  have e: "delete_sheet \<lparr>sheets_service = list_service, spreadsheet_id = ''S''\<rparr> ''X''
      [mk_sheet 0 ''A'', mk_sheet 5 ''X'', mk_sheet 9 ''X'']
   = (Returned (Response [deleteSheet 5]),
      [Print (''Calling delete_sheet to delete sheet '' @ [CHR 0x22] @ ''X'' @ [CHR 0x22]), Get ''S'',
       BatchUpdate ''S'' [deleteSheet 5]],
      [mk_sheet 0 ''A'', mk_sheet 9 ''X''])"
    by (simp add: delete_sheet_def Let_def list_service_def sheets_or_empty_def mk_sheet_def)
  show ?thesis
    using delete_sheet_first_match [OF g m] e by simp
qed

subsection \<open>\<open>add_sheet\<close>\<close>

text \<open>
  Claim C4: \<open>add_sheet\<close> sends exactly one batch update, whose single request is
  \<open>addSheet\<close> with the given title; when the service answers, it calls \<open>time.sleep(1)\<close>
  after the answer and returns the raw confirmation; when the request fails with an error (an
  exception deriving from \<open>Exception\<close>, as the errors of the client library and of the
  transport do), it returns an error message string and does not sleep. The name is not
  inspected, so this holds for the empty name as well.
\<close>

theorem add_sheet_single_request:
  assumes "batchUpdate_execute (sheets_service deps) (spreadsheet_id deps) [addSheet sheet_name] s
           = (res, s')"
  shows \<open>(\<forall>response. res = Inr response \<longrightarrow>
            add_sheet deps sheet_name s =
              (Returned (Response response),
               [Print (''Calling add_sheet to add sheet "'' @ sheet_name @ ''"''),
                BatchUpdate (spreadsheet_id deps) [addSheet sheet_name],
                Sleep 1], s'))
        \<and> (\<forall>e. res = Inl e \<and> issubclass (cls e) Exception \<longrightarrow>
            add_sheet deps sheet_name s =
              (Returned (Text (''An error occurred: '' @ str_of e)),
               [Print (''Calling add_sheet to add sheet "'' @ sheet_name @ ''"''),
                BatchUpdate (spreadsheet_id deps) [addSheet sheet_name]], s'))\<close>
proof (intro conjI allI impI)
  fix response
  assume "res = Inr response"
  with assms show \<open>add_sheet deps sheet_name s =
              (Returned (Response response),
               [Print (''Calling add_sheet to add sheet "'' @ sheet_name @ ''"''),
                BatchUpdate (spreadsheet_id deps) [addSheet sheet_name],
                Sleep 1], s')\<close>
    by (simp add: add_sheet_Inr)
next
  fix e
  assume "res = Inl e \<and> issubclass (cls e) Exception"
  with assms show \<open>add_sheet deps sheet_name s =
              (Returned (Text (''An error occurred: '' @ str_of e)),
               [Print (''Calling add_sheet to add sheet "'' @ sheet_name @ ''"''),
                BatchUpdate (spreadsheet_id deps) [addSheet sheet_name]], s')\<close>
    by (simp add: add_sheet_Inl)
qed

theorem add_sheet_single_request_witness:
  \<open>add_sheet \<lparr>sheets_service = list_service, spreadsheet_id = ''S''\<rparr> ''X'' [mk_sheet 0 ''A'']
   = (Returned (Response [addSheet ''X'']),
      [Print ''Calling add_sheet to add sheet "X"'', BatchUpdate ''S'' [addSheet ''X''], Sleep 1],
      [mk_sheet 0 ''A'', mk_sheet 1 ''X''])
   \<and> add_sheet \<lparr>sheets_service = failing_service (Exc HttpError ''quota''), spreadsheet_id = ''S''\<rparr>
       ''X'' ()
   = (Returned (Text ''An error occurred: quota''),
      [Print ''Calling add_sheet to add sheet "X"'', BatchUpdate ''S'' [addSheet ''X'']], ())\<close>
proof -
  have ok: "batchUpdate_execute (sheets_service \<lparr>sheets_service = list_service, spreadsheet_id = ''S''\<rparr>)
              (spreadsheet_id \<lparr>sheets_service = list_service, spreadsheet_id = ''S''\<rparr>)
              [addSheet ''X''] [mk_sheet 0 ''A'']
            = (Inr [addSheet ''X''], [mk_sheet 0 ''A'', mk_sheet 1 ''X''])"
    by (simp add: list_service_def mk_sheet_def)
  have ko: "batchUpdate_execute
              (sheets_service \<lparr>sheets_service = failing_service (Exc HttpError ''quota''),
                               spreadsheet_id = ''S''\<rparr>)
              (spreadsheet_id \<lparr>sheets_service = failing_service (Exc HttpError ''quota''),
                               spreadsheet_id = ''S''\<rparr>)
              [addSheet ''X''] ()
            = (Inl (Exc HttpError ''quota''), ())"
    by (simp add: failing_service_def)
  have sub: "issubclass (cls (Exc HttpError ''quota'')) Exception"
    by (simp add: issubclass_def)
  show ?thesis
    using add_sheet_single_request [OF ok] add_sheet_single_request [OF ko] sub by simp
qed

subsection \<open>\<open>list_sheets\<close>\<close>

text \<open>
  Claim C5: for every metadata the service returns, \<open>list_sheets\<close> returns one dictionary
  per sheet entry, in the order received, the one at position \<open>i\<close> being
  \<open>{'id': sheetId, 'name': title}\<close> of the entry at position \<open>i\<close>. The sheets
  \<open>(1, Sheet1), (2, Sheet2)\<close> of the specification give
  \<open>[{'id': 1, 'name': 'Sheet1'}, {'id': 2, 'name': 'Sheet2'}]\<close>.
\<close>

theorem list_sheets_projection:
  assumes "get_execute (sheets_service deps) (spreadsheet_id deps) s = (Inr sheet_metadata, s1)"
  shows "\<exists>ds. list_sheets deps s =
                (Returned (Dicts ds), [Print ''Calling list_sheets'', Get (spreadsheet_id deps)], s1)
            \<and> length ds = length (sheets_or_empty sheet_metadata)
            \<and> (\<forall>i < length ds.
                  ds ! i = [(''id'', PyInt (sheetId (properties (sheets_or_empty sheet_metadata ! i)))),
                            (''name'', PyStr (title (properties (sheets_or_empty sheet_metadata ! i))))])"
  using assms by (simp add: list_sheets_def Let_def)

theorem list_sheets_projection_witness:
  "list_sheets \<lparr>sheets_service = list_service, spreadsheet_id = ''S''\<rparr>
     [mk_sheet 1 ''Sheet1'', mk_sheet 2 ''Sheet2'']
   = (Returned (Dicts [[(''id'', PyInt 1), (''name'', PyStr ''Sheet1'')],
                       [(''id'', PyInt 2), (''name'', PyStr ''Sheet2'')]]),
      [Print ''Calling list_sheets'', Get ''S''],
      [mk_sheet 1 ''Sheet1'', mk_sheet 2 ''Sheet2''])"
proof -
  have g: "get_execute (sheets_service \<lparr>sheets_service = list_service, spreadsheet_id = ''S''\<rparr>)
             (spreadsheet_id \<lparr>sheets_service = list_service, spreadsheet_id = ''S''\<rparr>)
             [mk_sheet 1 ''Sheet1'', mk_sheet 2 ''Sheet2'']
           = (Inr \<lparr>sheets = Some [mk_sheet 1 ''Sheet1'', mk_sheet 2 ''Sheet2'']\<rparr>,
              [mk_sheet 1 ''Sheet1'', mk_sheet 2 ''Sheet2''])"
    by (simp add: list_service_def)
  from list_sheets_projection [OF g] obtain ds where
    run: "list_sheets \<lparr>sheets_service = list_service, spreadsheet_id = ''S''\<rparr>
            [mk_sheet 1 ''Sheet1'', mk_sheet 2 ''Sheet2'']
          = (Returned (Dicts ds), [Print ''Calling list_sheets'', Get ''S''],
             [mk_sheet 1 ''Sheet1'', mk_sheet 2 ''Sheet2''])"
    and len: "length ds = 2"
    and nth: "\<forall>i < length ds.
                ds ! i = [(''id'', PyInt (sheetId (properties ([mk_sheet 1 ''Sheet1'', mk_sheet 2 ''Sheet2''] ! i)))),
                          (''name'', PyStr (title (properties ([mk_sheet 1 ''Sheet1'', mk_sheet 2 ''Sheet2''] ! i))))]"
    by (auto simp add: sheets_or_empty_def)
  from len nth have "ds ! 0 = [(''id'', PyInt 1), (''name'', PyStr ''Sheet1'')]"
    and "ds ! 1 = [(''id'', PyInt 2), (''name'', PyStr ''Sheet2'')]"
    by (simp_all add: mk_sheet_def)
  with len have "ds = [[(''id'', PyInt 1), (''name'', PyStr ''Sheet1'')],
                       [(''id'', PyInt 2), (''name'', PyStr ''Sheet2'')]]"
    by (cases ds; cases "tl ds") auto
  with run show ?thesis by simp
qed

text \<open>
  Claim C6: when the spreadsheet has no sheets (the key \<open>sheets\<close> is absent or its list
  is empty), \<open>list_sheets\<close> returns the empty list and raises nothing.
\<close>

theorem list_sheets_empty:
  assumes "get_execute (sheets_service deps) (spreadsheet_id deps) s = (Inr sheet_metadata, s1)"
    and "sheets_or_empty sheet_metadata = []"
  shows "list_sheets deps s =
           (Returned (Dicts []), [Print ''Calling list_sheets'', Get (spreadsheet_id deps)], s1)"
  using assms by (simp add: list_sheets_def Let_def)

theorem list_sheets_empty_witness:
  "list_sheets \<lparr>sheets_service = list_service, spreadsheet_id = ''S''\<rparr> []
   = (Returned (Dicts []), [Print ''Calling list_sheets'', Get ''S''], [])
   \<and> sheets_or_empty \<lparr>sheets = None\<rparr> = []"
proof -
  have g: "get_execute (sheets_service \<lparr>sheets_service = list_service, spreadsheet_id = ''S''\<rparr>)
             (spreadsheet_id \<lparr>sheets_service = list_service, spreadsheet_id = ''S''\<rparr>) []
           = (Inr \<lparr>sheets = Some []\<rparr>, [])"
    by (simp add: list_service_def)
  have e: "sheets_or_empty \<lparr>sheets = Some []\<rparr> = []"
    by (simp add: sheets_or_empty_def)
  show ?thesis
    using list_sheets_empty [OF g e] by (simp add: sheets_or_empty_def)
qed

text \<open>
  Claim C7 says that every failure inside \<open>list_sheets\<close> reaches the agent runtime as a
  retryable condition. The handler of \<open>list_sheets\<close> is written to raise \<open>ModelRetry\<close>,
  but its clause is the tuple \<open>(Exception, ssl.SSL_ERROR_SSL)\<close>, whose second member is an
  integer: whatever exception the fetch raises, matching it against the clause raises
  \<open>TypeError\<close>, and that is what the runtime receives. (That \<open>list_sheets\<close> never returns
  an error string holds: \<open>list_sheets_never_text\<close>.)
\<close>

theorem list_sheets_failure_raises_TypeError:
  "list_sheets \<lparr>sheets_service = failing_service e, spreadsheet_id = sid\<rparr> ()
   = (Raised (Exc TypeError
        ''catching classes that do not inherit from BaseException is not allowed''),
      [Print ''Calling list_sheets'', Get sid], ())"
  unfolding list_sheets_def Let_def retry_clause
  by (simp add: failing_service_def cannot_catch_def)

subsection \<open>The session\<close>

text \<open>
  Claim C8: when the line read equals \<open>exit\<close> after lowercasing, the process ends through
  \<open>sys.exit('See you next time')\<close>, as the first line and as any later line: nothing but
  the read has happened, so no run of the agent (hence no tool) takes place, and the state of
  the world is unchanged.
\<close>

theorem exit_sentinel_ends_session:
  assumes "lower prompt = ''exit''"
  shows "main run (prompt # stdin) w = ([Input ''User: ''], SysExit ''See you next time'', w)
       \<and> loop run response (prompt # stdin) w
           = ([Input ''User: ''], SysExit ''See you next time'', w)"
  using assms by (simp add: main_def)

theorem exit_sentinel_ends_session_witness:
  "main echo_run [''EXIT'', ''list my sheets''] ()
     = ([Input ''User: ''], SysExit ''See you next time'', ())
   \<and> main echo_run [''hi'', ''Exit'', ''list my sheets''] ()
     = ([Input ''User: '', Run_sync ''hi'' None,
         Print_data ''Sheet agent: '' \<lparr>request_status = True, result_details = ''hi''\<rparr>,
         Input ''User: ''],
        SysExit ''See you next time'', ())"
proof -
  have up: "lower ''EXIT'' = ''exit''" by code_simp
  have mixed: "lower ''Exit'' = ''exit''" by code_simp
  have hi: "lower ''hi'' \<noteq> ''exit''" by code_simp
  have s: "strip ''hi'' = ''hi''" by code_simp
  show ?thesis
    using exit_sentinel_ends_session [OF up, of echo_run "[''list my sheets'']" "()"]
      exit_sentinel_ends_session [OF mixed, of echo_run "[''list my sheets'']" "()"
        "\<lparr>data = \<lparr>request_status = True, result_details = ''hi''\<rparr>, all_messages = [''hi'']\<rparr>"]
      hi s
    by (simp add: main_def echo_run_def)
qed



end
